theory Spec2Isabelle
  imports
    Main
    "HOL-Library.Char_ord"
    "HOL-Library.List_Lexorder"
    "HOL-Library.Product_Lexorder"
    "HOL-Library.AList"
begin

section \<open>The Landscape API client: signing, parameter encoding, error taxonomy\<close>

text \<open>
  A shallow embedding of \<^verbatim>\<open>landscape_api/base.py\<close>. Python text (\<^verbatim>\<open>str\<close>) is a
  \<^typ>\<open>string\<close>; a character above 127 stands for a byte of the UTF-8 encoding, so that
  comparing two texts compares their code points and percent-encoding works byte by byte,
  as \<^verbatim>\<open>urllib.parse.quote\<close> does. \<^verbatim>\<open>str.lower\<close> and \<^verbatim>\<open>str.strip\<close> are modelled on ASCII
  letters and ASCII white space; what they do with other characters is left out, as is
  the count of characters (not bytes) when text outside ASCII is unpacked. A Python
  \<^verbatim>\<open>dict\<close> with text keys is an association list in insertion order.
\<close>

subsection \<open>Characters and text\<close>

definition is_upper :: "char \<Rightarrow> bool" where
  "is_upper c = (CHR ''A'' \<le> c \<and> c \<le> CHR ''Z'')"

definition is_lower :: "char \<Rightarrow> bool" where
  "is_lower c = (CHR ''a'' \<le> c \<and> c \<le> CHR ''z'')"

definition is_digit :: "char \<Rightarrow> bool" where
  "is_digit c = (CHR ''0'' \<le> c \<and> c \<le> CHR ''9'')"

text \<open>\<^verbatim>\<open>str.lower\<close> on ASCII letters.\<close>

definition lower_char :: "char \<Rightarrow> char" where
  "lower_char c = (if is_upper c then char_of (of_char c + (32::nat)) else c)"

definition lower :: "string \<Rightarrow> string" where
  "lower s = map lower_char s"

text \<open>\<^verbatim>\<open>s.endswith(suffix)\<close> and \<^verbatim>\<open>s.startswith(prefix)\<close>.\<close>

definition endswith :: "string \<Rightarrow> string \<Rightarrow> bool" where
  "endswith s suffix = (length suffix \<le> length s \<and> drop (length s - length suffix) s = suffix)"

definition startswith :: "string \<Rightarrow> string \<Rightarrow> bool" where
  "startswith s pre = (take (length pre) s = pre)"

text \<open>\<^verbatim>\<open>sep.join(parts)\<close>.\<close>

fun join :: "string \<Rightarrow> string list \<Rightarrow> string" where
  "join sep [] = []"
| "join sep [x] = x"
| "join sep (x # y # ys) = x @ sep @ join sep (y # ys)"

subsection \<open>Local method names\<close>





subsection \<open>Python values, dictionaries and exceptions\<close>

text \<open>
  The values that reach the encoder and the signer. A \<^verbatim>\<open>date\<close> carries year, month and
  day, a \<^verbatim>\<open>datetime\<close> also hour, minute and second. Floating point values are left out.
\<close>

datatype pyval =
    VNone
  | VBool bool
  | VInt int
  | VStr string
  | VBytes string
  | VDate nat nat nat
  | VDateTime nat nat nat nat nat nat
  | VList "pyval list"
  | VDict "(string \<times> pyval) list"

type_synonym pydict = "(string \<times> pyval) list"

text \<open>\<^verbatim>\<open>d[k] = v\<close>, \<^verbatim>\<open>d.pop(k)\<close> for a key that is present, \<^verbatim>\<open>k in d\<close>, \<^verbatim>\<open>d.update(e)\<close>.\<close>

definition dict_set :: "pydict \<Rightarrow> string \<Rightarrow> pyval \<Rightarrow> pydict" where
  "dict_set d k v = AList.update k v d"

definition dict_pop :: "pydict \<Rightarrow> string \<Rightarrow> pydict" where
  "dict_pop d k = AList.delete k d"

definition dict_has :: "pydict \<Rightarrow> string \<Rightarrow> bool" where
  "dict_has d k = (k \<in> fst ` set d)"

definition dict_update :: "pydict \<Rightarrow> pydict \<Rightarrow> pydict" where
  "dict_update d e = foldl (\<lambda>acc (k, v). dict_set acc k v) d e"

text \<open>
  An exception class of the \<^verbatim>\<open>errors\<close> container. A class made by
  \<^verbatim>\<open>_build_exception\<close> has its \<^verbatim>\<open>__name__\<close> and a serial number, which stands for the
  identity of the class object: each call makes a new class, even under a name used
  before. The other five are the classes written out in the module.
\<close>

datatype error_class =
    Generated string nat
  | MultiError
  | UnauthorisedError
  | SignatureDoesNotMatchError
  | AuthFailureError
  | InvalidCredentialsError

text \<open>What an \<^verbatim>\<open>HTTPError\<close> carries: the status, the body, and the error code read from it.\<close>

record http_error =
  http_code :: int
  http_message :: string
  http_error_code :: "string option"

text \<open>
  The exceptions the modelled code raises. \<open>MissingParameter\<close> and \<open>ExtraArguments\<close> are
  the two \<^verbatim>\<open>TypeError\<close>s of \<^verbatim>\<open>_encode_struct_fields\<close>, told apart by their message, which
  names the missing parameter or shows the arguments left over;
  \<open>Raised\<close> is an instance of a class found in the \<^verbatim>\<open>errors\<close> container.
\<close>

datatype error =
    SyntaxError string
  | ValueError
  | TypeError
  | AttributeError
  | UnicodeEncodeError
  | UnicodeDecodeError
  | KeyError
  | FileNotFoundError string
  | MissingParameter string
  | ExtraArguments pyval
  | HTTPError http_error
  | Raised error_class int string

subsection \<open>Percent-encoding, base64, integers as text\<close>

definition hexdigit :: "nat \<Rightarrow> char" where
  "hexdigit n = ''0123456789ABCDEF'' ! (n mod 16)"

text \<open>
  \<^verbatim>\<open>urllib.parse.quote(s, safe)\<close>: letters, digits and \<^verbatim>\<open>_.-~\<close> are never escaped, nor
  are the ASCII characters of \<open>safe\<close>; every other byte becomes \<^verbatim>\<open>%XX\<close>.
\<close>

definition always_safe :: "char \<Rightarrow> bool" where
  "always_safe c = (is_upper c \<or> is_lower c \<or> is_digit c \<or> c \<in> set ''_.-~'')"

definition quote_byte :: "string \<Rightarrow> char \<Rightarrow> string" where
  "quote_byte safe c =
     (if always_safe c \<or> (c \<in> set safe \<and> (of_char c :: nat) < 128) then [c]
      else [CHR ''%'', hexdigit (of_char c div 16), hexdigit (of_char c mod 16)])"

definition quote :: "string \<Rightarrow> string \<Rightarrow> string" where
  "quote safe s = concat (map (quote_byte safe) s)"

text \<open>\<^verbatim>\<open>quote\<close> applied to a value: text and bytes are accepted, anything else is a \<^verbatim>\<open>TypeError\<close>.\<close>

fun quote_value :: "string \<Rightarrow> pyval \<Rightarrow> error + string" where
  "quote_value safe (VStr s) = Inr (quote safe s)"
| "quote_value safe (VBytes b) = Inr (quote safe b)"
| "quote_value safe _ = Inl TypeError"

definition b64_char :: "nat \<Rightarrow> char" where
  "b64_char n =
     ''ABCDEFGHIJKLMNOPQRSTUVWXYZabcdefghijklmnopqrstuvwxyz0123456789+/'' ! (n mod 64)"

fun b64encode :: "string \<Rightarrow> string" where
  "b64encode (a # b # c # rest) =
     (let n = of_char a * 65536 + of_char b * 256 + of_char c
      in b64_char (n div 262144) # b64_char (n div 4096) # b64_char (n div 64) # b64_char n
         # b64encode rest)"
| "b64encode [a, b] =
     (let n = of_char a * 65536 + of_char b * 256
      in [b64_char (n div 262144), b64_char (n div 4096), b64_char (n div 64), CHR ''=''])"
| "b64encode [a] =
     (let n = of_char a * 65536
      in [b64_char (n div 262144), b64_char (n div 4096), CHR ''='', CHR ''=''])"
| "b64encode [] = []"

text \<open>Decimal text of a number: \<^verbatim>\<open>str(n)\<close>, \<^verbatim>\<open>"%d" % n\<close>.\<close>

fun str_nat :: "nat \<Rightarrow> string" where
  "str_nat n = (if n < 10 then [hexdigit n] else str_nat (n div 10) @ [hexdigit (n mod 10)])"

definition str_int :: "int \<Rightarrow> string" where
  "str_int i = (if i < 0 then CHR ''-'' # str_nat (nat (- i)) else str_nat (nat i))"

text \<open>
  \<^verbatim>\<open>str.strip()\<close> removes white space at both ends; \<^verbatim>\<open>s.split(sep)\<close> for a separator
  of one character.
\<close>

definition is_space :: "char \<Rightarrow> bool" where
  "is_space c = (let n = (of_char c :: nat) in (9 \<le> n \<and> n \<le> 13) \<or> (28 \<le> n \<and> n \<le> 32))"

definition strip :: "string \<Rightarrow> string" where
  "strip s = rev (dropWhile is_space (rev (dropWhile is_space s)))"

fun split_on :: "char \<Rightarrow> string \<Rightarrow> string list" where
  "split_on sep [] = [[]]"
| "split_on sep (c # cs) =
     (if c = sep then [] # split_on sep cs
      else (case split_on sep cs of [] \<Rightarrow> [[c]] | p # ps \<Rightarrow> (c # p) # ps))"

text \<open>
  \<^verbatim>\<open>int(s)\<close> for ASCII text: white space around, an optional sign, then decimal digits,
  where single underscores may stand between digits. \<open>None\<close> is the \<^verbatim>\<open>ValueError\<close>.
\<close>

fun digits_value :: "nat \<Rightarrow> string \<Rightarrow> nat option" where
  "digits_value acc [] = Some acc"
| "digits_value acc (c # cs) =
     (if is_digit c then digits_value (acc * 10 + (of_char c - 48)) cs
      else if c = CHR ''_'' then
        (case cs of [] \<Rightarrow> None
         | d # _ \<Rightarrow> if is_digit d then digits_value acc cs else None)
      else None)"

definition int_digits :: "string \<Rightarrow> nat option" where
  "int_digits s = (case s of [] \<Rightarrow> None | c # _ \<Rightarrow> if is_digit c then digits_value 0 s else None)"

definition ascii_int :: "string \<Rightarrow> int option" where
  "ascii_int s =
     (case strip s of
        [] \<Rightarrow> None
      | c # cs \<Rightarrow>
          if c = CHR ''+'' then map_option int (int_digits cs)
          else if c = CHR ''-'' then map_option (\<lambda>n. - int n) (int_digits cs)
          else map_option int (int_digits (c # cs)))"

definition is_ascii :: "string \<Rightarrow> bool" where
  "is_ascii s = list_all (\<lambda>c. (of_char c :: nat) < 128) s"

subsection \<open>The error taxonomy\<close>

text \<open>
  \<^verbatim>\<open>_ErrorsContainer\<close> keeps the classes as attributes: \<^verbatim>\<open>add_error\<close> is \<^verbatim>\<open>setattr\<close>,
  \<^verbatim>\<open>lookup_error\<close> is \<^verbatim>\<open>getattr\<close> with \<^verbatim>\<open>None\<close> for a name that is not there. The
  attributes the object has of itself are left out; none of their names ends in
  \<^verbatim>\<open>Error\<close>.
\<close>

type_synonym errors_container = "string \<rightharpoonup> error_class"

definition add_error :: "errors_container \<Rightarrow> string \<Rightarrow> error_class \<Rightarrow> errors_container" where
  "add_error errs error_name err = errs(error_name \<mapsto> err)"

definition lookup_error :: "errors_container \<Rightarrow> string \<Rightarrow> error_class option" where
  "lookup_error errs error_name = errs error_name"

definition get_error_code_name :: "string \<Rightarrow> string" where
  "get_error_code_name error_code =
     (if endswith error_code ''Error'' then error_code else error_code @ ''Error'')"

definition build_exception :: "string \<Rightarrow> nat \<Rightarrow> error_class" where
  "build_exception name serial = Generated name serial"

text \<open>
  One round of the innermost loop of \<^verbatim>\<open>_build_exceptions\<close>, for one declared code. The
  state is the container and the number of classes built so far.
\<close>

definition register_code :: "errors_container \<times> nat \<Rightarrow> string \<Rightarrow> errors_container \<times> nat" where
  "register_code st error_code =
     (let exception_name = get_error_code_name error_code;
          exception_type = build_exception exception_name (snd st)
      in (if lookup_error (fst st) exception_name = None
          then add_error (fst st) exception_name exception_type
          else fst st,
          Suc (snd st)))"

subsection \<open>The schema\<close>

text \<open>
  A parameter description of the schema: its \<^verbatim>\<open>name\<close>, its \<^verbatim>\<open>type\<close> with the
  descriptions that belong to the type (\<^verbatim>\<open>item\<close> of a list, \<^verbatim>\<open>key\<close> and \<^verbatim>\<open>value\<close> of a
  mapping, \<^verbatim>\<open>fields\<close> of a structure), whether \<^verbatim>\<open>optional\<close> is set, and what
  \<^verbatim>\<open>parameter.get("default")\<close> gives (\<^verbatim>\<open>None\<close> when there is no default).
\<close>

datatype param =
    Param (p_name: string) (p_type: ptype) (p_optional: bool) (p_default: pyval)
and ptype =
    TInteger
  | TFloat
  | TRawString
  | TEnum
  | TUnicode
  | TUnicodeLine
  | TUnicodeTitle
  | TFile
  | TBoolean
  | TDate
  | TList param
  | TMapping param param
  | TData
  | TStructure "(string \<times> param) list"

text \<open>An action of one version: \<^verbatim>\<open>doc\<close>, \<^verbatim>\<open>parameters\<close>, and the \<^verbatim>\<open>code\<close> of each of its \<^verbatim>\<open>errors\<close>.\<close>

record handler =
  h_doc :: string
  h_parameters :: "param list"
  h_errors :: "string list"

type_synonym schema = "(string \<times> (string \<times> handler) list) list"

text \<open>\<^verbatim>\<open>_build_exceptions\<close>: the three loops over actions, versions and declared errors.\<close>

definition build_exceptions :: "schema \<Rightarrow> errors_container" where
  "build_exceptions sch =
     fst (foldl (\<lambda>st (action, version_handlers).
                   foldl (\<lambda>st (version, handler). foldl register_code st (h_errors handler))
                     st version_handlers)
            (Map.empty, 0) sch)"

text \<open>The module's \<^verbatim>\<open>errors\<close>: what the schema gives, then the five classes added by hand.\<close>

definition module_errors :: "schema \<Rightarrow> errors_container" where
  "module_errors sch =
     add_error (add_error (add_error (add_error (add_error (build_exceptions sch)
       ''MultiError'' MultiError)
       ''Unauthorised'' UnauthorisedError)
       ''SignatureDoesNotMatchError'' SignatureDoesNotMatchError)
       ''AuthFailureError'' AuthFailureError)
       ''InvalidCredentialsError'' InvalidCredentialsError"

text \<open>The error codes a schema declares, in the order the loops meet them.\<close>

definition declared_codes :: "schema \<Rightarrow> string list" where
  "declared_codes sch =
     concat (map (\<lambda>(action, version_handlers).
                    concat (map (\<lambda>(version, handler). h_errors handler) version_handlers)) sch)"

subsection \<open>Signing and sending a query\<close>

text \<open>
  What \<^verbatim>\<open>run_query\<close> uses from outside the repository. The functions of the Python
  library that only compute are the fields of \<open>library\<close>: \<^verbatim>\<open>urlparse\<close> (which may raise)
  and \<^verbatim>\<open>urlunparse\<close> on the six parts of a URL, the digest of
  \<^verbatim>\<open>hmac.new(key, msg, sha256)\<close>, \<^verbatim>\<open>json.loads\<close>, \<^verbatim>\<open>str\<close> of a value that is not
  text, a number, a truth value or \<^verbatim>\<open>None\<close>, and \<^verbatim>\<open>int\<close> of text that is not ASCII
  (Python reads the decimal digits of every script). The \<open>world\<close> is what can differ from one
  run to the next: \<open>clock n\<close> is what
  \<^verbatim>\<open>time.strftime("%Y-%m-%dT%H:%M:%SZ", time.gmtime())\<close> gives at the \<open>n\<close>-th reading of
  the clock, \<open>fetch\<close> is the transport with its arguments \<^verbatim>\<open>url\<close>, \<^verbatim>\<open>post_body\<close>,
  \<^verbatim>\<open>headers\<close> and \<^verbatim>\<open>cainfo\<close>, and \<open>files\<close> is the file system.
\<close>

type_synonym url_parts = "string \<times> string \<times> string \<times> string \<times> string \<times> string"

record library =
  urlparse :: "string \<Rightarrow> error + url_parts"
  urlunparse :: "url_parts \<Rightarrow> string"
  hmac_sha256 :: "string \<Rightarrow> string \<Rightarrow> string"
  json_loads :: "string \<Rightarrow> error + pyval"
  repr_other :: "pyval \<Rightarrow> string"
  int_unicode :: "string \<Rightarrow> int option"

record world =
  clock :: "nat \<Rightarrow> string"
  fetch :: "string \<Rightarrow> string \<Rightarrow> (string \<times> string) list \<Rightarrow> pyval \<Rightarrow> error + string"
  files :: "string \<rightharpoonup> string"

text \<open>
  \<^verbatim>\<open>parse(url)\<close>: host, port and path of a URL. Unpacking \<^verbatim>\<open>host.split(":")\<close> into two
  names is a \<^verbatim>\<open>ValueError\<close> unless there are exactly two pieces; the \<^verbatim>\<open>ValueError\<close> of
  \<^verbatim>\<open>int(port)\<close> is caught and gives the port \<^verbatim>\<open>None\<close>.
\<close>

definition py_int :: "library \<Rightarrow> string \<Rightarrow> int option" where
  "py_int lib s = (if is_ascii s then ascii_int s else int_unicode lib s)"

definition parse :: "library \<Rightarrow> string \<Rightarrow> error + (string \<times> int option \<times> string)" where
  "parse lib url =
     (let lowurl = lower url in
      if \<not> (startswith lowurl ''http://'' \<or> startswith lowurl ''https://'')
      then Inl (SyntaxError url)
      else
        (case urlparse lib (strip url) of
           Inl e \<Rightarrow> Inl e
         | Inr (scheme, netloc, p, ps, q, f) \<Rightarrow>
             (let path = urlunparse lib ([], [], p, ps, q, f) in
              if CHR '':'' \<in> set netloc then
                (case split_on CHR '':'' netloc of
                   [host, port] \<Rightarrow> Inr (host, py_int lib port, path)
                 | _ \<Rightarrow> Inl ValueError)
              else Inr (netloc, None, path))))"

text \<open>\<^verbatim>\<open>"%s:%d" % (host, port) if port is not None else host\<close>.\<close>

definition signed_host_of :: "string \<Rightarrow> int option \<Rightarrow> string" where
  "signed_host_of host port =
     (case port of Some n \<Rightarrow> host @ '':'' @ str_int n | None \<Rightarrow> host)"

text \<open>
  The first loop of \<^verbatim>\<open>run_query\<close> takes every entry out of \<^verbatim>\<open>params\<close> and puts it back;
  then the six fixed entries are merged in.
\<close>

definition reinsert_all :: "pydict \<Rightarrow> pydict" where
  "reinsert_all params = foldl (\<lambda>d (k, v). dict_set (dict_pop d k) k v) params params"

definition merge_fixed :: "pydict \<Rightarrow> string \<Rightarrow> string \<Rightarrow> string \<Rightarrow> string \<Rightarrow> pydict" where
  "merge_fixed params access_key action timestamp version =
     dict_update params
       [(''access_key_id'', VStr access_key),
        (''action'', VStr action),
        (''signature_version'', VStr ''2''),
        (''signature_method'', VStr ''HmacSHA256''),
        (''timestamp'', VStr timestamp),
        (''version'', VStr version)]"

text \<open>
  \<^verbatim>\<open>sorted(params.items())\<close> compares the (key, value) pairs; the keys of a dictionary
  differ from each other, so the comparison is decided by the keys alone.
\<close>

definition sorted_items :: "pydict \<Rightarrow> pydict" where
  "sorted_items params = sort_key fst params"

text \<open>
  \<^verbatim>\<open>"&".join("%s=%s" % (quote(key, safe="~"), quote(value, safe="~")) for ...)\<close>: the
  first value that \<^verbatim>\<open>quote\<close> refuses ends the join with its error.
\<close>

fun quote_pairs :: "pydict \<Rightarrow> error + string list" where
  "quote_pairs [] = Inr []"
| "quote_pairs ((key, v) # rest) =
     (case quote_value ''~'' v of
        Inl e \<Rightarrow> Inl e
      | Inr qv \<Rightarrow>
          (case quote_pairs rest of
             Inl e \<Rightarrow> Inl e
           | Inr qs \<Rightarrow> Inr ((quote ''~'' key @ ''='' @ qv) # qs)))"

definition signed_params_of :: "pydict \<Rightarrow> error + string" where
  "signed_params_of params =
     (case quote_pairs (sorted_items params) of
        Inl e \<Rightarrow> Inl e
      | Inr qs \<Rightarrow> Inr (join ''&'' qs))"

definition to_sign_of :: "string \<Rightarrow> string \<Rightarrow> string \<Rightarrow> string \<Rightarrow> string" where
  "to_sign_of method signed_host path signed_params =
     method @ [CHR 0x0A] @ signed_host @ [CHR 0x0A] @ path @ [CHR 0x0A] @ signed_params"

text \<open>
  What a call of \<^verbatim>\<open>run_query\<close> leaves behind: the caller's \<^verbatim>\<open>params\<close> dictionary as it
  is afterwards, the number of clock readings made so far, the call made to the
  transport if it came to that, and the value returned or the exception raised.
\<close>

record outcome =
  params_after :: pydict
  readings :: nat
  sent :: "(string \<times> string \<times> (string \<times> string) list \<times> pyval) option"
  result :: "error + string"

text \<open>The \<^verbatim>\<open>except HTTPError\<close> clause of \<^verbatim>\<open>run_query\<close>.\<close>

definition reraise :: "errors_container \<Rightarrow> error \<Rightarrow> error" where
  "reraise errs e =
     (case e of
        HTTPError h \<Rightarrow>
          (case http_error_code h of
             Some ec \<Rightarrow>
               (case lookup_error errs (get_error_code_name ec) of
                  Some error_class \<Rightarrow> Raised error_class (http_code h) (http_message h)
                | None \<Rightarrow> e)
           | None \<Rightarrow> e)
      | _ \<Rightarrow> e)"

definition run_query ::
  "library \<Rightarrow> world \<Rightarrow> nat \<Rightarrow> errors_container \<Rightarrow> string \<Rightarrow> string \<Rightarrow> string \<Rightarrow> pydict
     \<Rightarrow> string \<Rightarrow> pyval \<Rightarrow> string \<Rightarrow> outcome" where
  "run_query lib w n errs access_key secret_key action params uri ssl_ca_file version =
     (let timestamp = clock w n;
          params' = merge_fixed (reinsert_all params) access_key action timestamp version;
          method = ''POST'';
          raised = (\<lambda>e. \<lparr>params_after = params', readings = Suc n, sent = None,
                          result = Inl e\<rparr>)
      in case parse lib uri of
           Inl e \<Rightarrow> raised e
         | Inr (host, port, path0) \<Rightarrow>
             (let signed_host = signed_host_of host port;
                  path = (if path0 = [] then ''/'' else path0);
                  uri' = (if path0 = [] then uri @ ''/'' else uri)
              in case signed_params_of params' of
                   Inl e \<Rightarrow> raised e
                 | Inr signed_params \<Rightarrow>
                     (let to_sign = to_sign_of method signed_host path signed_params in
                      if \<not> (is_ascii secret_key \<and> is_ascii to_sign)
                      then raised UnicodeEncodeError
                      else
                        (let digest = hmac_sha256 lib secret_key to_sign;
                             signature = b64encode digest;
                             body = signed_params @ ''&signature='' @ quote ''/'' signature;
                             headers = [(''Host'', signed_host)]
                         in \<lparr>params_after = params', readings = Suc n,
                              sent = Some (uri', body, headers, ssl_ca_file),
                              result =
                                (case fetch w uri' body headers ssl_ca_file of
                                   Inr text \<Rightarrow> Inr text
                                 | Inl e \<Rightarrow> Inl (reraise errs e))\<rparr>))))"

text \<open>
  The canonical parameter string as the specification words it: every key and value is
  percent-encoded first, and the encoded pairs are sorted.
\<close>

definition spec_canonical_params :: "(string \<times> string) list \<Rightarrow> string" where
  "spec_canonical_params params =
     join ''&'' (map (\<lambda>(k, v). k @ ''='' @ v)
                  (sort (map (\<lambda>(k, v). (quote ''~'' k, quote ''~'' v)) params)))"

text \<open>The text a value stands for where \<^verbatim>\<open>quote\<close> accepts it.\<close>

fun is_text :: "pyval \<Rightarrow> bool" where
  "is_text (VStr s) = True"
| "is_text (VBytes b) = True"
| "is_text _ = False"

fun text_of :: "pyval \<Rightarrow> string" where
  "text_of (VStr s) = s"
| "text_of (VBytes b) = b"
| "text_of _ = []"

text \<open>
  A library and two worlds for the examples below. The library answers for the URLs the
  examples use; its digest is a fixed text in place of the 32 bytes of the real one.
\<close>

definition sample_library :: library where
  "sample_library =
     \<lparr>urlparse = (\<lambda>u.
          if u = ''https://example.com/api/''
          then Inr (''https'', ''example.com'', ''/api/'', [], [], [])
          else if u = ''http://example.com:abc/api/''
          then Inr (''http'', ''example.com:abc'', ''/api/'', [], [], [])
          else Inl ValueError),
      urlunparse = (\<lambda>(scheme, netloc, path, ps, q, f). path),
      hmac_sha256 = (\<lambda>key msg. ''digest''),
      json_loads = (\<lambda>s. Inr (VStr s)),
      repr_other = (\<lambda>v. ''object''),
      int_unicode = (\<lambda>s. None)\<rparr>"

definition sample_world_a :: world where
  "sample_world_a =
     \<lparr>clock = (\<lambda>n. if n = 0 then ''2020-01-01T00:00:00Z'' else ''2020-01-01T00:00:01Z''),
      fetch = (\<lambda>url body headers cainfo. Inr ''[]''),
      files = Map.empty\<rparr>"

definition sample_world_b :: world where
  "sample_world_b =
     \<lparr>clock = (\<lambda>n. if n = 5 then ''2020-01-01T00:00:00Z'' else ''2021-06-01T12:00:00Z''),
      fetch = (\<lambda>url body headers cainfo.
                 Inl (HTTPError \<lparr>http_code = 500, http_message = ''down'',
                                   http_error_code = None\<rparr>)),
      files = Map.empty\<rparr>"

text \<open>A schema for the examples: two actions, one of them in two versions.\<close>

definition sample_schema :: schema where
  "sample_schema =
     [(''GetComputers'',
        [(''2011-08-01'',
            \<lparr>h_doc = ''Get a list of computers.'', h_parameters = [],
             h_errors = [''UnknownComputer'', ''InvalidQuery'']\<rparr>),
         (''2013-11-04'',
            \<lparr>h_doc = ''Get a list of computers.'', h_parameters = [],
             h_errors = [''InvalidQueryError'']\<rparr>)]),
      (''RemoveComputers'',
        [(''2011-08-01'',
            \<lparr>h_doc = ''Remove computers.'', h_parameters = [],
             h_errors = [''UnknownComputerError'']\<rparr>)])]"

subsection \<open>The parameter encoder: values\<close>

text \<open>
  Python's \<^verbatim>\<open>==\<close> on the modelled values. A truth value is an integer (\<^verbatim>\<open>True == 1\<close>);
  text and bytes are never equal; a \<^verbatim>\<open>date\<close> and a \<^verbatim>\<open>datetime\<close> are never equal; lists are
  compared item by item, dictionaries key by key.
\<close>

fun py_eq :: "pyval \<Rightarrow> pyval \<Rightarrow> bool"
and py_eq_list :: "pyval list \<Rightarrow> pyval list \<Rightarrow> bool"
and py_eq_items :: "(string \<times> pyval) list \<Rightarrow> (string \<times> pyval) list \<Rightarrow> bool" where
  "py_eq VNone w = (w = VNone)"
| "py_eq (VBool a) w =
     (case w of VBool b \<Rightarrow> a = b | VInt j \<Rightarrow> (if a then 1 else 0) = j | _ \<Rightarrow> False)"
| "py_eq (VInt i) w =
     (case w of VInt j \<Rightarrow> i = j | VBool b \<Rightarrow> i = (if b then 1 else 0) | _ \<Rightarrow> False)"
| "py_eq (VStr s) w = (w = VStr s)"
| "py_eq (VBytes s) w = (w = VBytes s)"
| "py_eq (VDate y m d) w = (w = VDate y m d)"
| "py_eq (VDateTime y m d h mi s) w = (w = VDateTime y m d h mi s)"
| "py_eq (VList xs) w = (case w of VList ys \<Rightarrow> py_eq_list xs ys | _ \<Rightarrow> False)"
| "py_eq (VDict a) w =
     (case w of VDict b \<Rightarrow> length a = length b \<and> py_eq_items a b | _ \<Rightarrow> False)"
| "py_eq_list [] ys = (ys = [])"
| "py_eq_list (x # xs) ys =
     (case ys of [] \<Rightarrow> False | y # ys' \<Rightarrow> py_eq x y \<and> py_eq_list xs ys')"
| "py_eq_items [] b = True"
| "py_eq_items ((k, v) # a) b =
     (case map_of b k of None \<Rightarrow> False | Some v' \<Rightarrow> py_eq v v' \<and> py_eq_items a b)"

text \<open>The truth value of a value, as \<^verbatim>\<open>if value\<close> takes it.\<close>

fun truthy :: "pyval \<Rightarrow> bool" where
  "truthy VNone = False"
| "truthy (VBool b) = b"
| "truthy (VInt i) = (i \<noteq> 0)"
| "truthy (VStr s) = (s \<noteq> [])"
| "truthy (VBytes s) = (s \<noteq> [])"
| "truthy (VList xs) = (xs \<noteq> [])"
| "truthy (VDict d) = (d \<noteq> [])"
| "truthy _ = True"

text \<open>\<^verbatim>\<open>str(value)\<close>, and \<^verbatim>\<open>"{}".format(value)\<close>.\<close>

fun py_str :: "library \<Rightarrow> pyval \<Rightarrow> string" where
  "py_str lib (VStr s) = s"
| "py_str lib (VInt i) = str_int i"
| "py_str lib (VBool b) = (if b then ''True'' else ''False'')"
| "py_str lib VNone = ''None''"
| "py_str lib v = repr_other lib v"

text \<open>
  \<^verbatim>\<open>str(value, "utf-8")\<close> decodes bytes and nothing else: for text, as for any value that is
  not bytes, it is a \<^verbatim>\<open>TypeError\<close>. \<open>utf8_scan\<close> tells whether bytes are well-formed UTF-8;
  its first argument counts the continuation bytes still due, the next two bound the
  next of them.
\<close>

fun utf8_scan :: "nat \<Rightarrow> nat \<Rightarrow> nat \<Rightarrow> string \<Rightarrow> bool" where
  "utf8_scan 0 lo hi [] = True"
| "utf8_scan (Suc k) lo hi [] = False"
| "utf8_scan 0 lo hi (c # cs) =
     (let n = (of_char c :: nat) in
      if n < 128 then utf8_scan 0 128 191 cs
      else if 194 \<le> n \<and> n \<le> 223 then utf8_scan 1 128 191 cs
      else if n = 224 then utf8_scan 2 160 191 cs
      else if n = 237 then utf8_scan 2 128 159 cs
      else if 225 \<le> n \<and> n \<le> 239 then utf8_scan 2 128 191 cs
      else if n = 240 then utf8_scan 3 144 191 cs
      else if 241 \<le> n \<and> n \<le> 243 then utf8_scan 3 128 191 cs
      else if n = 244 then utf8_scan 3 128 143 cs
      else False)"
| "utf8_scan (Suc k) lo hi (c # cs) =
     (let n = (of_char c :: nat) in lo \<le> n \<and> n \<le> hi \<and> utf8_scan k 128 191 cs)"

fun str_utf8 :: "pyval \<Rightarrow> error + string" where
  "str_utf8 (VBytes b) = (if utf8_scan 0 128 191 b then Inr b else Inl UnicodeDecodeError)"
| "str_utf8 _ = Inl TypeError"

text \<open>\<^verbatim>\<open>value.strftime("%Y-%m-%dT%H:%M:%SZ")\<close>, the year in four digits.\<close>

definition pad :: "nat \<Rightarrow> nat \<Rightarrow> string" where
  "pad w n = replicate (w - length (str_nat n)) CHR ''0'' @ str_nat n"

definition strftime :: "nat \<Rightarrow> nat \<Rightarrow> nat \<Rightarrow> nat \<Rightarrow> nat \<Rightarrow> nat \<Rightarrow> string" where
  "strftime y m d h mi s =
     pad 4 y @ ''-'' @ pad 2 m @ ''-'' @ pad 2 d @ ''T'' @ pad 2 h @ '':'' @ pad 2 mi @ '':''
       @ pad 2 s @ ''Z''"

text \<open>\<^verbatim>\<open>os.path.basename(path)\<close>.\<close>

definition basename :: "string \<Rightarrow> string" where
  "basename path = rev (takeWhile (\<lambda>c. c \<noteq> CHR ''/'') (rev path))"

text \<open>
  \<^verbatim>\<open>_parse_csv_list_safely\<close>: the loop over the characters, with the item read so far and
  the \<^verbatim>\<open>escaped\<close> flag; the result is the list of the items yielded. The flag is set by a
  backslash and cleared only by a comma.
\<close>

fun csv_loop :: "string \<Rightarrow> bool \<Rightarrow> string \<Rightarrow> string list" where
  "csv_loop item escaped [] =
     (let item' = (if escaped then item @ [CHR 0x5C] else item)
      in if item' \<noteq> [] then [item'] else [])"
| "csv_loop item escaped (c # cs) =
     (if c = CHR '','' then
        (if escaped then csv_loop (item @ [c]) False cs
         else item # csv_loop [] escaped cs)
      else if c = CHR 0x5C then csv_loop item True cs
      else csv_loop ((if escaped then item @ [CHR 0x5C] else item) @ [c]) escaped cs)"

definition parse_csv_list_safely :: "string \<Rightarrow> string list" where
  "parse_csv_list_safely v = csv_loop [] False v"

text \<open>
  \<^verbatim>\<open>_parse_csv_mapping_safely\<close>: \<^verbatim>\<open>item.partition("=")\<close> on every item; an item without
  \<^verbatim>\<open>=\<close> is a \<^verbatim>\<open>ValueError\<close>.
\<close>

fun partition_pairs :: "string list \<Rightarrow> error + (string \<times> string) list" where
  "partition_pairs [] = Inr []"
| "partition_pairs (item # items) =
     (if CHR ''='' \<notin> set item then Inl ValueError
      else
        (case partition_pairs items of
           Inl e \<Rightarrow> Inl e
         | Inr kvs \<Rightarrow>
             Inr ((takeWhile (\<lambda>c. c \<noteq> CHR ''='') item,
                   tl (dropWhile (\<lambda>c. c \<noteq> CHR ''='') item)) # kvs)))"

definition parse_csv_mapping_safely :: "string \<Rightarrow> error + (string \<times> string) list" where
  "parse_csv_mapping_safely v = partition_pairs (parse_csv_list_safely v)"

subsection \<open>The parameter encoder: one function for each type\<close>

definition encode_integer :: "library \<Rightarrow> string \<Rightarrow> pyval \<Rightarrow> error + pydict" where
  "encode_integer lib name arg = Inr [(name, VStr (py_str lib arg))]"

definition encode_float :: "library \<Rightarrow> string \<Rightarrow> pyval \<Rightarrow> error + pydict" where
  "encode_float lib name arg = Inr [(name, VStr (py_str lib arg))]"

definition encode_raw_string :: "library \<Rightarrow> string \<Rightarrow> pyval \<Rightarrow> error + pydict" where
  "encode_raw_string lib name v = Inr [(name, VStr (py_str lib v))]"

definition encode_enum :: "library \<Rightarrow> string \<Rightarrow> pyval \<Rightarrow> error + pydict" where
  "encode_enum lib name v = Inr [(name, VStr (py_str lib v))]"

text \<open>\<^verbatim>\<open>_encode_date\<close>: text is passed on; anything without \<^verbatim>\<open>strftime\<close> is an \<^verbatim>\<open>AttributeError\<close>.\<close>

fun encode_date :: "string \<Rightarrow> pyval \<Rightarrow> error + pydict" where
  "encode_date name (VStr s) = Inr [(name, VStr s)]"
| "encode_date name (VDate y m d) = Inr [(name, VStr (strftime y m d 0 0 0))]"
| "encode_date name (VDateTime y m d h mi s) = Inr [(name, VStr (strftime y m d h mi s))]"
| "encode_date name _ = Inl AttributeError"

text \<open>
  \<^verbatim>\<open>_encode_unicode\<close> (also \<^verbatim>\<open>_encode_unicode_line\<close> and \<^verbatim>\<open>_encode_unicode_title\<close>): a
  \<^verbatim>\<open>date\<close> or \<^verbatim>\<open>datetime\<close> goes to \<^verbatim>\<open>_encode_date\<close>, every other value to
  \<^verbatim>\<open>str(value, "utf-8")\<close>.
\<close>

fun encode_unicode :: "string \<Rightarrow> pyval \<Rightarrow> error + pydict" where
  "encode_unicode name (VDate y m d) = encode_date name (VDate y m d)"
| "encode_unicode name (VDateTime y m d h mi s) = encode_date name (VDateTime y m d h mi s)"
| "encode_unicode name v =
     (case str_utf8 v of Inl e \<Rightarrow> Inl e | Inr s \<Rightarrow> Inr [(name, VStr s)])"

definition encode_boolean :: "string \<Rightarrow> pyval \<Rightarrow> error + pydict" where
  "encode_boolean name v = Inr [(name, VStr (if truthy v then ''true'' else ''false''))]"

text \<open>
  \<^verbatim>\<open>_encode_file\<close> and \<^verbatim>\<open>_encode_data\<close> read a file; a path is text or bytes (a number
  taken as a file descriptor is not modelled and counts as a wrong type). With a path
  in bytes the file name is bytes too and cannot be joined to \<^verbatim>\<open>"$$"\<close>. In
  \<^verbatim>\<open>_encode_data\<close> the result of \<^verbatim>\<open>b64encode\<close> is bytes, which have no \<^verbatim>\<open>encode\<close>.
\<close>

fun encode_file :: "(string \<rightharpoonup> string) \<Rightarrow> string \<Rightarrow> pyval \<Rightarrow> error + pydict" where
  "encode_file fs name (VStr path) =
     (case fs path of
        None \<Rightarrow> Inl (FileNotFoundError path)
      | Some contents \<Rightarrow>
          Inr [(name, VBytes (basename path @ ''$$'' @ b64encode contents))])"
| "encode_file fs name (VBytes path) =
     (case fs path of None \<Rightarrow> Inl (FileNotFoundError path) | Some contents \<Rightarrow> Inl TypeError)"
| "encode_file fs name _ = Inl TypeError"

fun encode_data :: "(string \<rightharpoonup> string) \<Rightarrow> string \<Rightarrow> pyval \<Rightarrow> error + pydict" where
  "encode_data fs name (VStr path) =
     (case fs path of
        None \<Rightarrow> Inl (FileNotFoundError path) | Some contents \<Rightarrow> Inl AttributeError)"
| "encode_data fs name (VBytes path) =
     (case fs path of
        None \<Rightarrow> Inl (FileNotFoundError path) | Some contents \<Rightarrow> Inl AttributeError)"
| "encode_data fs name _ = Inl TypeError"

text \<open>
  The sequence \<^verbatim>\<open>_encode_list\<close> goes through: text is split at every comma and the pieces
  are stripped; a list is taken as it is; a dictionary gives its keys, bytes their
  numbers; nothing else can be iterated over.
\<close>

fun sequence_of :: "pyval \<Rightarrow> error + pyval list" where
  "sequence_of (VStr s) = Inr (map (\<lambda>item. VStr (strip item)) (split_on CHR '','' s))"
| "sequence_of (VList xs) = Inr xs"
| "sequence_of (VDict d) = Inr (map (\<lambda>(k, v). VStr k) d)"
| "sequence_of (VBytes b) = Inr (map (\<lambda>c. VInt (int (of_char c))) b)"
| "sequence_of _ = Inl TypeError"

text \<open>
  What \<^verbatim>\<open>_encode_mapping\<close> goes through: for text, the keys of the dictionary made from
  the stripped pairs; for a dictionary, its (key, value) pairs; and how one element is
  unpacked into \<^verbatim>\<open>key, value\<close>.
\<close>

fun mapping_items :: "pyval \<Rightarrow> error + pyval list" where
  "mapping_items (VStr s) =
     (case parse_csv_mapping_safely s of
        Inl e \<Rightarrow> Inl e
      | Inr kvs \<Rightarrow>
          Inr (map (\<lambda>(k, v). VStr k)
                 (foldl (\<lambda>d (k, v). dict_set d (strip k) (VStr (strip v))) [] kvs)))"
| "mapping_items (VDict d) = Inr (map (\<lambda>(k, v). VList [VStr k, v]) d)"
| "mapping_items v = sequence_of v"

fun unpack_pair :: "pyval \<Rightarrow> error + (pyval \<times> pyval)" where
  "unpack_pair (VList xs) = (case xs of [a, b] \<Rightarrow> Inr (a, b) | _ \<Rightarrow> Inl ValueError)"
| "unpack_pair (VStr s) =
     (case s of [a, b] \<Rightarrow> Inr (VStr [a], VStr [b]) | _ \<Rightarrow> Inl ValueError)"
| "unpack_pair (VBytes s) =
     (case s of [a, b] \<Rightarrow> Inr (VInt (int (of_char a)), VInt (int (of_char b)))
      | _ \<Rightarrow> Inl ValueError)"
| "unpack_pair (VDict d) =
     (case d of [(a, x), (b, y)] \<Rightarrow> Inr (VStr a, VStr b) | _ \<Rightarrow> Inl ValueError)"
| "unpack_pair _ = Inl TypeError"

subsection \<open>The parameter encoder: the recursion\<close>

text \<open>
  \<^verbatim>\<open>_encode_argument\<close> with the handler chosen by the type (\<open>encode_kind\<close>),
  \<^verbatim>\<open>_encode_struct_fields\<close> with its loop over the declared fields (\<open>encode_fields\<close>,
  which also gives back the arguments not yet taken), and the loops of \<^verbatim>\<open>_encode_list\<close>
  (\<open>encode_items\<close>) and \<^verbatim>\<open>_encode_mapping\<close> (\<open>encode_pairs\<close>). A structure is encoded
  from a dictionary. A list can be copied too, and is then gone through by
  \<open>struct_of_list\<close>: a declared name that is an item of the list cannot be popped from
  it, which is a \<^verbatim>\<open>TypeError\<close>. \<^verbatim>\<open>dictionary.copy()\<close> of any other value is an
  \<^verbatim>\<open>AttributeError\<close>.
\<close>

fun struct_of_list :: "(string \<times> param) list \<Rightarrow> pyval list \<Rightarrow> error + pydict" where
  "struct_of_list [] xs = (if xs \<noteq> [] then Inl (ExtraArguments (VList xs)) else Inr [])"
| "struct_of_list ((parameter_name, parameter_description) # flds) xs =
     (if VStr parameter_name \<notin> set xs then
        (if \<not> p_optional parameter_description then Inl (MissingParameter parameter_name)
         else struct_of_list flds xs)
      else Inl TypeError)"

function encode_argument ::
      "library \<Rightarrow> (string \<rightharpoonup> string) \<Rightarrow> param \<Rightarrow> string \<Rightarrow> pyval \<Rightarrow> error + pydict"
and encode_kind ::
      "library \<Rightarrow> (string \<rightharpoonup> string) \<Rightarrow> ptype \<Rightarrow> string \<Rightarrow> pyval \<Rightarrow> error + pydict"
and encode_struct_fields ::
      "library \<Rightarrow> (string \<rightharpoonup> string) \<Rightarrow> (string \<times> param) list \<Rightarrow> pydict \<Rightarrow> string
         \<Rightarrow> error + pydict"
and encode_fields ::
      "library \<Rightarrow> (string \<rightharpoonup> string) \<Rightarrow> (string \<times> param) list \<Rightarrow> pydict \<Rightarrow> string
         \<Rightarrow> pydict \<Rightarrow> error + (pydict \<times> pydict)"
and encode_items ::
      "library \<Rightarrow> (string \<rightharpoonup> string) \<Rightarrow> param \<Rightarrow> string \<Rightarrow> nat \<Rightarrow> pyval list \<Rightarrow> pydict
         \<Rightarrow> error + pydict"
and encode_pairs ::
      "library \<Rightarrow> (string \<rightharpoonup> string) \<Rightarrow> param \<Rightarrow> param \<Rightarrow> string \<Rightarrow> pyval list \<Rightarrow> pydict
         \<Rightarrow> error + pydict"
where
  "encode_argument lib fs (Param pname t opt dflt) name v =
     (if opt \<and> py_eq v dflt then Inr [] else encode_kind lib fs t name v)"
| "encode_kind lib fs t name v =
     (case t of
        TInteger \<Rightarrow> encode_integer lib name v
      | TFloat \<Rightarrow> encode_float lib name v
      | TRawString \<Rightarrow> encode_raw_string lib name v
      | TEnum \<Rightarrow> encode_enum lib name v
      | TUnicode \<Rightarrow> encode_unicode name v
      | TUnicodeLine \<Rightarrow> encode_unicode name v
      | TUnicodeTitle \<Rightarrow> encode_unicode name v
      | TFile \<Rightarrow> encode_file fs name v
      | TBoolean \<Rightarrow> encode_boolean name v
      | TDate \<Rightarrow> encode_date name v
      | TData \<Rightarrow> encode_data fs name v
      | TList item \<Rightarrow>
          (case sequence_of v of
             Inl e \<Rightarrow> Inl e
           | Inr xs \<Rightarrow> encode_items lib fs item name 0 xs [])
      | TMapping keyparam valueparam \<Rightarrow>
          (case mapping_items v of
             Inl e \<Rightarrow> Inl e
           | Inr xs \<Rightarrow> encode_pairs lib fs keyparam valueparam name xs [])
      | TStructure flds \<Rightarrow>
          (case v of
             VDict dictionary \<Rightarrow> encode_struct_fields lib fs flds dictionary (name @ ''.'')
           | VList xs \<Rightarrow> struct_of_list flds xs
           | _ \<Rightarrow> Inl AttributeError))"
| "encode_struct_fields lib fs flds arguments prefix =
     (case encode_fields lib fs flds arguments prefix [] of
        Inl e \<Rightarrow> Inl e
      | Inr (rest, res) \<Rightarrow>
          if rest \<noteq> [] then Inl (ExtraArguments (VDict rest)) else Inr res)"
| "encode_fields lib fs [] arguments prefix res = Inr (arguments, res)"
| "encode_fields lib fs ((parameter_name, parameter_description) # flds) arguments prefix
       res =
     (case map_of arguments parameter_name of
        None \<Rightarrow>
          if \<not> p_optional parameter_description then Inl (MissingParameter parameter_name)
          else encode_fields lib fs flds arguments prefix res
      | Some v \<Rightarrow>
          (case encode_argument lib fs parameter_description (prefix @ parameter_name) v of
             Inl e \<Rightarrow> Inl e
           | Inr encoded_item \<Rightarrow>
               encode_fields lib fs flds (dict_pop arguments parameter_name) prefix
                 (dict_update res encoded_item)))"
| "encode_items lib fs item name i [] res = Inr res"
| "encode_items lib fs item name i (x # xs) res =
     (case encode_argument lib fs item (name @ ''.'' @ str_nat (i + 1)) x of
        Inl e \<Rightarrow> Inl e
      | Inr encoded_item \<Rightarrow>
          encode_items lib fs item name (i + 1) xs (dict_update res encoded_item))"
| "encode_pairs lib fs keyparam valueparam name [] res = Inr res"
| "encode_pairs lib fs keyparam valueparam name (x # xs) res =
     (case unpack_pair x of
        Inl e \<Rightarrow> Inl e
      | Inr (k, v) \<Rightarrow>
          (case encode_argument lib fs keyparam ''<key>'' k of
             Inl e \<Rightarrow> Inl e
           | Inr encoded_key \<Rightarrow>
               (case map_of encoded_key ''<key>'' of
                  None \<Rightarrow> Inl KeyError
                | Some key \<Rightarrow>
                    (case encode_argument lib fs valueparam (name @ ''.'' @ py_str lib key) v of
                       Inl e \<Rightarrow> Inl e
                     | Inr encoded_item \<Rightarrow>
                         encode_pairs lib fs keyparam valueparam name xs
                           (dict_update res encoded_item)))))"
  by pat_completeness auto
termination
  apply (relation "measures
     [\<lambda>x. case x of
          Inl (Inl (lib, fs, p, name, v)) \<Rightarrow> size p
        | Inl (Inr (Inl (lib, fs, t, name, v))) \<Rightarrow> size t
        | Inl (Inr (Inr (lib, fs, flds, arguments, prefix))) \<Rightarrow>
            size_list (size_prod (\<lambda>n. 0) size) flds
        | Inr (Inl (lib, fs, flds, arguments, prefix, res)) \<Rightarrow>
            size_list (size_prod (\<lambda>n. 0) size) flds
        | Inr (Inr (Inl (lib, fs, item, name, i, xs, res))) \<Rightarrow> size item
        | Inr (Inr (Inr (lib, fs, keyparam, valueparam, name, xs, res))) \<Rightarrow>
            size keyparam + size valueparam,
      \<lambda>x. case x of
          Inl (Inl (lib, fs, p, name, v)) \<Rightarrow> 0
        | Inl (Inr (Inl (lib, fs, t, name, v))) \<Rightarrow> 0
        | Inl (Inr (Inr (lib, fs, flds, arguments, prefix))) \<Rightarrow> 1
        | Inr (Inl (lib, fs, flds, arguments, prefix, res)) \<Rightarrow> 0
        | Inr (Inr (Inl (lib, fs, item, name, i, xs, res))) \<Rightarrow> Suc (length xs)
        | Inr (Inr (Inr (lib, fs, keyparam, valueparam, name, xs, res))) \<Rightarrow>
            Suc (length xs)]")
  apply auto
  done

subsection \<open>The API object\<close>

text \<open>
  What an \<^verbatim>\<open>API\<close> object holds. Its \<^verbatim>\<open>version\<close> picks the action in the schema and is the
  version signed (\<^verbatim>\<open>LATEST_VERSION\<close> for \<^verbatim>\<open>API\<close>, \<^verbatim>\<open>FUTURE_VERSION\<close> for \<^verbatim>\<open>APIv2\<close>).
  \<^verbatim>\<open>_API.run_query\<close> returns the text of the answer, or what \<^verbatim>\<open>json.loads\<close> makes of it;
  \<^verbatim>\<open>call\<close> looks the action up (a \<^verbatim>\<open>KeyError\<close> when it is not there), encodes the
  keyword arguments and runs the query. An exception raised before the query is run
  leaves no outcome of a query.
\<close>

record api =
  api_uri :: string
  api_access_key :: string
  api_secret_key :: string
  api_ssl_ca_file :: pyval
  api_json :: bool
  api_schema :: schema
  api_version :: string

definition api_run_query ::
  "library \<Rightarrow> world \<Rightarrow> nat \<Rightarrow> errors_container \<Rightarrow> api \<Rightarrow> string \<Rightarrow> pydict
     \<Rightarrow> outcome \<times> (error + pyval)" where
  "api_run_query lib w n errs a action_name arguments =
     (let r = run_query lib w n errs (api_access_key a) (api_secret_key a) action_name
                arguments (api_uri a) (api_ssl_ca_file a) (api_version a)
      in (r, case result r of
               Inl e \<Rightarrow> Inl e
             | Inr text \<Rightarrow> if api_json a then Inr (VStr text) else json_loads lib text))"

definition call ::
  "library \<Rightarrow> world \<Rightarrow> nat \<Rightarrow> errors_container \<Rightarrow> api \<Rightarrow> string \<Rightarrow> pydict
     \<Rightarrow> error + outcome \<times> (error + pyval)" where
  "call lib w n errs a method kwargs =
     (case map_of (api_schema a) method of
        None \<Rightarrow> Inl KeyError
      | Some versions \<Rightarrow>
          (case map_of versions (api_version a) of
             None \<Rightarrow> Inl KeyError
           | Some action \<Rightarrow>
               (let flds = map (\<lambda>x. (p_name x, x)) (h_parameters action) in
                case encode_struct_fields lib (files w) flds kwargs [] of
                  Inl e \<Rightarrow> Inl e
                | Inr arguments \<Rightarrow> Inr (api_run_query lib w n errs a method arguments))))"

subsection \<open>Local method names: the documented examples\<close>


subsection \<open>Dictionaries\<close>

lemma map_of_dict_set: "map_of (dict_set d k v) = (map_of d)(k \<mapsto> v)"
  by (simp add: dict_set_def update_conv')

lemma distinct_dict_set: "distinct (map fst d) \<Longrightarrow> distinct (map fst (dict_set d k v))"
  by (simp add: dict_set_def distinct_update)

lemma map_of_merge_fixed:
  "map_of (merge_fixed d ak action ts version)
     = (map_of d)(''access_key_id'' \<mapsto> VStr ak, ''action'' \<mapsto> VStr action,
         ''signature_version'' \<mapsto> VStr ''2'', ''signature_method'' \<mapsto> VStr ''HmacSHA256'',
         ''timestamp'' \<mapsto> VStr ts, ''version'' \<mapsto> VStr version)"
  by (simp add: merge_fixed_def dict_update_def map_of_dict_set)

lemma distinct_merge_fixed:
  "distinct (map fst d) \<Longrightarrow> distinct (map fst (merge_fixed d ak action ts version))"
  by (simp add: merge_fixed_def dict_update_def distinct_dict_set)

lemma reinsert_step:
  assumes "distinct (map fst d)" and "map_of d k = Some v"
  shows "map_of (dict_set (dict_pop d k) k v) = map_of d"
    and "distinct (map fst (dict_set (dict_pop d k) k v))"
proof -
  have "map_of (dict_set (dict_pop d k) k v) = (map_of d)(k \<mapsto> v)"
    by (simp add: dict_set_def dict_pop_def update_conv' delete_conv')
  also have "\<dots> = map_of d" using assms(2) by (simp add: map_upd_triv)
  finally show "map_of (dict_set (dict_pop d k) k v) = map_of d" .
  show "distinct (map fst (dict_set (dict_pop d k) k v))"
    using assms(1) by (simp add: dict_set_def dict_pop_def distinct_update distinct_delete)
qed

lemma reinsert_fold:
  "distinct (map fst d) \<Longrightarrow> \<forall>(k, v) \<in> set items. map_of d k = Some v \<Longrightarrow>
   map_of (foldl (\<lambda>d (k, v). dict_set (dict_pop d k) k v) d items) = map_of d
   \<and> distinct (map fst (foldl (\<lambda>d (k, v). dict_set (dict_pop d k) k v) d items))"
proof (induction items arbitrary: d)
  case Nil
  then show ?case by simp
next
  case (Cons kv items)
  obtain k v where kv: "kv = (k, v)" by (cases kv)
  from Cons.prems kv have look: "map_of d k = Some v" by simp
  note st = reinsert_step[OF Cons.prems(1) look]
  have "\<forall>(k', v') \<in> set items. map_of (dict_set (dict_pop d k) k v) k' = Some v'"
    using Cons.prems(2) st(1) by simp
  from Cons.IH[OF st(2) this] st(1) show ?case by (simp add: kv)
qed

lemma reinsert_all_map:
  assumes "distinct (map fst params)"
  shows "map_of (reinsert_all params) = map_of params"
    and "distinct (map fst (reinsert_all params))"
proof -
  have "\<forall>(k, v) \<in> set params. map_of params k = Some v"
    using assms by auto
  from reinsert_fold[OF assms this]
  show "map_of (reinsert_all params) = map_of params"
    and "distinct (map fst (reinsert_all params))"
    by (simp_all add: reinsert_all_def)
qed

lemma quote_pairs_text:
  "\<forall>(k, v) \<in> set xs. is_text v \<Longrightarrow>
   quote_pairs xs = Inr (map (\<lambda>(k, v). quote ''~'' k @ ''='' @ quote ''~'' (text_of v)) xs)"
proof (induction xs)
  case Nil
  then show ?case by simp
next
  case (Cons kv xs)
  obtain k v where kv: "kv = (k, v)" by (cases kv)
  from Cons.prems kv have "is_text v" by simp
  then have "quote_value ''~'' v = Inr (quote ''~'' (text_of v))"
    by (cases v) simp_all
  with Cons kv show ?case by simp
qed

lemma sorted_items_props:
  assumes "distinct (map fst d)"
  shows "distinct (map fst (sorted_items d))"
    and "sorted (map fst (sorted_items d))"
    and "map_of (sorted_items d) = map_of d"
    and "set (sorted_items d) = set d"
proof -
  show s: "set (sorted_items d) = set d" by (simp add: sorted_items_def)
  show dist: "distinct (map fst (sorted_items d))"
    using assms by (simp add: sorted_items_def distinct_map)
  show "sorted (map fst (sorted_items d))" by (simp add: sorted_items_def)
  show "map_of (sorted_items d) = map_of d"
    using dist assms s by (simp add: map_of_inject_set)
qed

lemma params_after_run_query:
  "params_after (run_query lib w n errs ak sk action params uri ca version)
     = merge_fixed (reinsert_all params) ak action (clock w n) version"
  by (simp add: run_query_def Let_def split: sum.splits prod.splits)

lemma sent_run_query:
  assumes "parse lib uri = Inr (host, port, path0)"
    and "signed_params_of (merge_fixed (reinsert_all params) ak action (clock w n) version)
           = Inr sp"
    and "is_ascii sk"
    and "is_ascii (to_sign_of ''POST'' (signed_host_of host port)
                    (if path0 = [] then ''/'' else path0) sp)"
  shows "sent (run_query lib w n errs ak sk action params uri ca version)
     = Some (if path0 = [] then uri @ ''/'' else uri,
             sp @ ''&signature=''
               @ quote ''/'' (b64encode (hmac_sha256 lib sk
                   (to_sign_of ''POST'' (signed_host_of host port)
                      (if path0 = [] then ''/'' else path0) sp))),
             [(''Host'', signed_host_of host port)], ca)"
  using assms by (simp add: run_query_def Let_def)
lemma split_on_no_sep: "sep \<notin> set s \<Longrightarrow> split_on sep s = [s]"
  by (induction s) auto

lemma split_on_one_sep:
  "sep \<notin> set a \<Longrightarrow> sep \<notin> set b \<Longrightarrow> split_on sep (a @ sep # b) = [a, b]"
  by (induction a) (auto simp: split_on_no_sep)

subsection \<open>The signed request\<close>

text \<open>
  C1, as the code has it. For a parameter dictionary whose values are text, and a URI that
  \<^verbatim>\<open>parse\<close> accepts: the pairs that are signed are the caller's entries with the six
  fixed entries merged in, listed in the order of their keys as they are, before any
  encoding. The canonical parameter string joins \<^verbatim>\<open>key=value\<close> with \<^verbatim>\<open>&\<close>, key and value
  percent-encoded with \<^verbatim>\<open>~\<close> left as it is. The text to sign is the four lines
  \<^verbatim>\<open>POST\<close>, signed host, path and canonical parameter string, joined by line feeds.
  The body that is posted is the canonical parameter string followed by
  \<^verbatim>\<open>&signature=\<close> and the percent-encoded base64 text of the digest.
\<close>

theorem run_query_canonical_request:
  assumes "distinct (map fst params)"
    and "\<forall>(k, v) \<in> set params. is_text v"
    and "parse lib uri = Inr (host, port, path0)"
    and "is_ascii sk"
  shows "\<exists>xs. distinct (map fst xs) \<and> sorted (map fst xs)
     \<and> map_of xs = (map_of params)
          (''access_key_id'' \<mapsto> VStr ak, ''action'' \<mapsto> VStr action,
           ''signature_version'' \<mapsto> VStr ''2'', ''signature_method'' \<mapsto> VStr ''HmacSHA256'',
           ''timestamp'' \<mapsto> VStr (clock w n), ''version'' \<mapsto> VStr version)
     \<and> (let sp = join ''&''
                 (map (\<lambda>(k, v). quote ''~'' k @ ''='' @ quote ''~'' (text_of v)) xs);
             signed_host = signed_host_of host port;
             path = (if path0 = [] then ''/'' else path0);
             to_sign = ''POST'' @ [CHR 0x0A] @ signed_host @ [CHR 0x0A] @ path
                         @ [CHR 0x0A] @ sp
         in is_ascii to_sign \<longrightarrow>
            sent (run_query lib w n errs ak sk action params uri ca version)
              = Some (if path0 = [] then uri @ ''/'' else uri,
                      sp @ ''&signature=''
                        @ quote ''/'' (b64encode (hmac_sha256 lib sk to_sign)),
                      [(''Host'', signed_host)], ca))"
proof -
  let ?d = "merge_fixed (reinsert_all params) ak action (clock w n) version"
  let ?xs = "sorted_items ?d"
  have dd: "distinct (map fst ?d)"
    using assms(1) by (simp add: distinct_merge_fixed reinsert_all_map)
  have md: "map_of ?d = (map_of params)
          (''access_key_id'' \<mapsto> VStr ak, ''action'' \<mapsto> VStr action,
           ''signature_version'' \<mapsto> VStr ''2'', ''signature_method'' \<mapsto> VStr ''HmacSHA256'',
           ''timestamp'' \<mapsto> VStr (clock w n), ''version'' \<mapsto> VStr version)"
    using assms(1) by (simp add: map_of_merge_fixed reinsert_all_map)
  have vals: "\<forall>(k, v) \<in> set ?xs. is_text v"
  proof (clarify)
    fix k v assume "(k, v) \<in> set ?xs"
    then have "(k, v) \<in> set ?d" by (simp add: sorted_items_props(4)[OF dd])
    then have "map_of ?d k = Some v" using dd by simp
    then have "map_of params k = Some v \<or> is_text v"
      unfolding md by (auto split: if_splits)
    then show "is_text v"
      using assms(2) by (auto dest: map_of_SomeD)
  qed
  have sp: "signed_params_of ?d = Inr (join ''&''
                 (map (\<lambda>(k, v). quote ''~'' k @ ''='' @ quote ''~'' (text_of v)) ?xs))"
    by (simp add: signed_params_of_def quote_pairs_text[OF vals])
  have "distinct (map fst ?xs)" "sorted (map fst ?xs)" "map_of ?xs = map_of ?d"
    by (simp_all add: sorted_items_props[OF dd])
  moreover note sent_run_query[OF assms(3) sp assms(4), where errs=errs and ca=ca]
  ultimately show ?thesis
    unfolding md by (intro exI[of _ ?xs]) (simp add: Let_def to_sign_of_def)
qed

text \<open>The canonical parameter string of the code and that of the specification, at an example.\<close>

lemmas eval_text =
  quote_def quote_byte_def always_safe_def is_upper_def is_lower_def is_digit_def hexdigit_def

lemma example_merged:
  "merge_fixed (reinsert_all [(''{'', VStr ''2''), (''a'', VStr ''1'')]) ''K'' ''A'' ''T'' ''V''
   = [(''{'', VStr ''2''), (''a'', VStr ''1''), (''access_key_id'', VStr ''K''),
      (''action'', VStr ''A''), (''signature_version'', VStr ''2''),
      (''signature_method'', VStr ''HmacSHA256''), (''timestamp'', VStr ''T''),
      (''version'', VStr ''V'')]"
  by (simp add: merge_fixed_def reinsert_all_def dict_update_def dict_set_def dict_pop_def)

lemma example_signed_params:
  "signed_params_of
     (merge_fixed (reinsert_all [(''{'', VStr ''2''), (''a'', VStr ''1'')])
        ''K'' ''A'' ''T'' ''V'')
   = Inr ''a=1&access_key_id=K&action=A&signature_method=HmacSHA256&signature_version=2&timestamp=T&version=V&%7B=2''"
  unfolding example_merged
  by (simp add: signed_params_of_def sorted_items_def eval_text)

lemma example_spec_params:
  "spec_canonical_params
     (map (\<lambda>(k, v). (k, text_of v))
        (merge_fixed (reinsert_all [(''{'', VStr ''2''), (''a'', VStr ''1'')])
           ''K'' ''A'' ''T'' ''V''))
   = ''%7B=2&a=1&access_key_id=K&action=A&signature_method=HmacSHA256&signature_version=2&timestamp=T&version=V''"
  unfolding example_merged
  by (simp add: spec_canonical_params_def eval_text)

text \<open>
  C1, as the specification states it, fails: with the two parameters \<^verbatim>\<open>{\<close> and \<^verbatim>\<open>a\<close> the
  code puts \<^verbatim>\<open>a=1\<close> first and \<^verbatim>\<open>%7B=2\<close> last, since \<^verbatim>\<open>a\<close> comes before \<^verbatim>\<open>{\<close>, while
  sorting the encoded pairs would put \<^verbatim>\<open>%7B=2\<close> first.
\<close>

theorem canonical_params_counterexample:
  "signed_params_of
     (merge_fixed (reinsert_all [(''{'', VStr ''2''), (''a'', VStr ''1'')])
        ''K'' ''A'' ''T'' ''V'')
   \<noteq> Inr (spec_canonical_params
     (map (\<lambda>(k, v). (k, text_of v))
        (merge_fixed (reinsert_all [(''{'', VStr ''2''), (''a'', VStr ''1'')])
           ''K'' ''A'' ''T'' ''V'')))"
  unfolding example_signed_params example_spec_params by simp

lemma b64_digest: "b64encode ''digest'' = ''ZGlnZXN0''"
  by (simp add: b64_char_def Let_def)

lemma sample_digest: "hmac_sha256 sample_library = (\<lambda>key msg. ''digest'')"
  by (simp add: sample_library_def)

lemma quote_digest: "quote ''/'' ''ZGlnZXN0'' = ''ZGlnZXN0''"
  by (simp add: eval_text)

lemma sample_digest_text:
  "quote ''/'' (b64encode (hmac_sha256 sample_library k m)) = ''ZGlnZXN0''"
  by (simp only: sample_digest b64_digest quote_digest)

lemma sample_signed:
  "signed_params_of (merge_fixed (reinsert_all [(''query'', VStr ''a b'')]) ''K''
      ''GetComputers'' (clock sample_world_a 0) ''2011-08-01'')
   = Inr ''access_key_id=K&action=GetComputers&query=a%20b&signature_method=HmacSHA256&signature_version=2&timestamp=2020-01-01T00%3A00%3A00Z&version=2011-08-01''"
  by (simp add: merge_fixed_def reinsert_all_def dict_update_def dict_set_def dict_pop_def
      signed_params_of_def sorted_items_def eval_text sample_world_a_def)

lemma sample_parse:
  "parse sample_library ''https://example.com/api/'' = Inr (''example.com'', None, ''/api/'')"
  by (simp add: parse_def sample_library_def lower_def lower_char_def is_upper_def
      startswith_def strip_def is_space_def)

lemma sample_body:
  "''access_key_id=K&action=GetComputers&query=a%20b&signature_method=HmacSHA256&signature_version=2&timestamp=2020-01-01T00%3A00%3A00Z&version=2011-08-01''
     @ ''&signature='' @ ''ZGlnZXN0''
   = ''access_key_id=K&action=GetComputers&query=a%20b&signature_method=HmacSHA256&signature_version=2&timestamp=2020-01-01T00%3A00%3A00Z&version=2011-08-01&signature=ZGlnZXN0''"
  by (simp only: append.simps)

theorem run_query_canonical_request_witness:
  "distinct (map fst [(''query'', VStr ''a b'')])
   \<and> is_text (VStr ''a b'')
   \<and> parse sample_library ''https://example.com/api/'' = Inr (''example.com'', None, ''/api/'')
   \<and> is_ascii ''S''
   \<and> sent (run_query sample_library sample_world_a 0 Map.empty ''K'' ''S'' ''GetComputers''
             [(''query'', VStr ''a b'')] ''https://example.com/api/'' (VBool True) ''2011-08-01'')
      = Some (''https://example.com/api/'',
          ''access_key_id=K&action=GetComputers&query=a%20b&signature_method=HmacSHA256&signature_version=2&timestamp=2020-01-01T00%3A00%3A00Z&version=2011-08-01&signature=ZGlnZXN0'',
          [(''Host'', ''example.com'')], VBool True)"
proof -
  have h1: "distinct (map fst [(''query'', VStr ''a b'')])" by simp
  have h2: "\<forall>(k, v) \<in> set [(''query'', VStr ''a b'')]. is_text v" by simp
  note h3 = sample_parse
  have h4: "is_ascii ''S''" by (simp add: is_ascii_def)
  have h5: "is_ascii (to_sign_of ''POST'' (signed_host_of ''example.com'' None)
                    (if ''/api/'' = [] then ''/'' else ''/api/'')
     ''access_key_id=K&action=GetComputers&query=a%20b&signature_method=HmacSHA256&signature_version=2&timestamp=2020-01-01T00%3A00%3A00Z&version=2011-08-01'')"
    by (simp add: is_ascii_def to_sign_of_def signed_host_of_def)
  have h6: "sent (run_query sample_library sample_world_a 0 Map.empty ''K'' ''S'' ''GetComputers''
             [(''query'', VStr ''a b'')] ''https://example.com/api/'' (VBool True) ''2011-08-01'')
      = Some (''https://example.com/api/'',
          ''access_key_id=K&action=GetComputers&query=a%20b&signature_method=HmacSHA256&signature_version=2&timestamp=2020-01-01T00%3A00%3A00Z&version=2011-08-01&signature=ZGlnZXN0'',
          [(''Host'', ''example.com'')], VBool True)"
    unfolding sent_run_query[OF h3 sample_signed h4 h5] sample_digest_text sample_body
    by (simp add: signed_host_of_def)
  show ?thesis
    apply (insert run_query_canonical_request[OF h1 h2 h3 h4, where ak = "''K''"])
    apply (rule conjI, rule h1, rule conjI, simp, rule conjI, rule h3, rule conjI, rule h4)
    apply (rule h6)
    done
qed

text \<open>
  C8. Signing is deterministic: two runs with the same keys, action, parameters, URI and
  version, which read the same timestamp from the clock, send the same request, whatever
  the clock shows later and whatever the transport answers. Each run reads the clock
  once.
\<close>

theorem run_query_deterministic:
  "clock w1 n1 = clock w2 n2 \<Longrightarrow>
   sent (run_query lib w1 n1 errs1 ak sk action params uri ca version)
     = sent (run_query lib w2 n2 errs2 ak sk action params uri ca version)
   \<and> readings (run_query lib w1 n1 errs1 ak sk action params uri ca version) = Suc n1
   \<and> readings (run_query lib w2 n2 errs2 ak sk action params uri ca version) = Suc n2"
  by (simp add: run_query_def Let_def split: sum.splits prod.splits)

theorem run_query_deterministic_witness:
  "clock sample_world_a 0 = clock sample_world_b 5
   \<and> sent (run_query sample_library sample_world_a 0 Map.empty ''K'' ''S'' ''GetComputers''
             [(''query'', VStr ''a b'')] ''https://example.com/api/'' (VBool True) ''2011-08-01'')
     = sent (run_query sample_library sample_world_b 5 (module_errors []) ''K'' ''S''
             ''GetComputers'' [(''query'', VStr ''a b'')] ''https://example.com/api/''
             (VBool True) ''2011-08-01'')"
proof -
  have h: "clock sample_world_a 0 = clock sample_world_b 5"
    by (simp add: sample_world_a_def sample_world_b_def)
  from run_query_deterministic[OF h] h show ?thesis by blast
qed

text \<open>
  C9. \<^verbatim>\<open>run_query\<close> changes the dictionary of its caller: after the call, whether it
  returned or raised, \<^verbatim>\<open>params\<close> holds the six entries that were merged in for signing.
\<close>

theorem run_query_mutates_params:
  "map_of (params_after (run_query lib w n errs ak sk action params uri ca version))
     ''access_key_id'' = Some (VStr ak)
   \<and> map_of (params_after (run_query lib w n errs ak sk action params uri ca version))
     ''action'' = Some (VStr action)
   \<and> map_of (params_after (run_query lib w n errs ak sk action params uri ca version))
     ''signature_version'' = Some (VStr ''2'')
   \<and> map_of (params_after (run_query lib w n errs ak sk action params uri ca version))
     ''signature_method'' = Some (VStr ''HmacSHA256'')
   \<and> map_of (params_after (run_query lib w n errs ak sk action params uri ca version))
     ''timestamp'' = Some (VStr (clock w n))
   \<and> map_of (params_after (run_query lib w n errs ak sk action params uri ca version))
     ''version'' = Some (VStr version)"
  by (simp add: params_after_run_query map_of_merge_fixed)

text \<open>
  C10. A URI that passes the scheme check, whose authority is a host, one colon and a
  port that \<^verbatim>\<open>int\<close> does not accept: \<^verbatim>\<open>parse\<close> raises nothing and returns the bare host
  with the port \<^verbatim>\<open>None\<close>, and the signed host is the host without a port.
\<close>

theorem parse_non_numeric_port:
  assumes "startswith (lower url) ''http://'' \<or> startswith (lower url) ''https://''"
    and "urlparse lib (strip url) = Inr (scheme, host @ '':'' @ port, p, ps, q, f)"
    and "CHR '':'' \<notin> set host" and "CHR '':'' \<notin> set port"
    and "py_int lib port = None"
  shows "parse lib url = Inr (host, None, urlunparse lib ([], [], p, ps, q, f))
         \<and> signed_host_of host None = host"
  using assms by (simp add: parse_def Let_def split_on_one_sep signed_host_of_def)

theorem parse_non_numeric_port_witness:
  "parse sample_library ''http://example.com:abc/api/'' = Inr (''example.com'', None, ''/api/'')
   \<and> py_int sample_library ''abc'' = None"
proof -
  have h1: "startswith (lower ''http://example.com:abc/api/'') ''http://''
            \<or> startswith (lower ''http://example.com:abc/api/'') ''https://''"
    by code_simp
  have h2: "urlparse sample_library (strip ''http://example.com:abc/api/'')
            = Inr (''http'', ''example.com'' @ '':'' @ ''abc'', ''/api/'', [], [], [])"
    by code_simp
  have h3: "CHR '':'' \<notin> set ''example.com''" by simp
  have h4: "CHR '':'' \<notin> set ''abc''" by simp
  have h5: "py_int sample_library ''abc'' = None" by code_simp
  from parse_non_numeric_port[OF h1 h2 h3 h4 h5] h5 show ?thesis
    by (simp add: sample_library_def)
qed

subsection \<open>The error taxonomy of a schema\<close>

lemma endswith_append: "endswith (s @ t) t"
  by (simp add: endswith_def)

lemma get_error_code_name_idem:
  "get_error_code_name (get_error_code_name c) = get_error_code_name c"
  by (simp add: get_error_code_name_def endswith_append)

lemma build_exceptions_flat:
  "build_exceptions sch = fst (foldl register_code (Map.empty, 0) (declared_codes sch))"
proof -
  have inner: "foldl (\<lambda>st (version, handler). foldl register_code st (h_errors handler)) st vhs
        = foldl register_code st (concat (map (\<lambda>(version, handler). h_errors handler) vhs))"
    for st vhs
    by (induction vhs arbitrary: st) (auto)
  have outer: "foldl (\<lambda>st (action, version_handlers).
                   foldl (\<lambda>st (version, handler). foldl register_code st (h_errors handler))
                     st version_handlers) st sch
        = foldl register_code st (declared_codes sch)" for st
    by (induction sch arbitrary: st) (auto simp: declared_codes_def inner)
  show ?thesis by (simp add: build_exceptions_def outer)
qed

lemma foldl_register_code:
  "foldl register_code (errs, n) cs =
     (\<lambda>name. case errs name of
         Some k \<Rightarrow> Some k
       | None \<Rightarrow>
           if name \<in> get_error_code_name ` set cs
           then Some (Generated name
                  (n + length (takeWhile (\<lambda>d. get_error_code_name d \<noteq> name) cs)))
           else None,
      n + length cs)"
proof (induction cs arbitrary: errs n)
  case Nil
  show ?case by (auto split: option.splits)
next
  case (Cons c cs)
  show ?case
    unfolding foldl_Cons
    by (subst register_code_def)
       (auto simp: Cons.IH Let_def lookup_error_def add_error_def build_exception_def
             fun_eq_iff split: option.splits)
qed

text \<open>
  C4. For every error code that some action of the schema declares, in whatever version:
  the container built from the schema holds, under the code's name normalised to end in
  \<^verbatim>\<open>Error\<close>, the class that was built when a code of that name was first met; looking
  up the normalised name of the raw code and of the normalised code gives that class; the
  names of the container are exactly the normalised declared codes; and registering the
  code again changes nothing.
\<close>

theorem build_exceptions_registers:
  assumes "c \<in> set (declared_codes sch)"
  shows "lookup_error (build_exceptions sch) (get_error_code_name c)
           = Some (Generated (get_error_code_name c)
               (length (takeWhile (\<lambda>d. get_error_code_name d \<noteq> get_error_code_name c)
                  (declared_codes sch))))
     \<and> lookup_error (build_exceptions sch) (get_error_code_name (get_error_code_name c))
           = lookup_error (build_exceptions sch) (get_error_code_name c)
     \<and> dom (build_exceptions sch) = get_error_code_name ` set (declared_codes sch)
     \<and> fst (register_code (register_code (build_exceptions sch, n) c) c)
           = build_exceptions sch"
proof -
  have b: "build_exceptions sch =
     (\<lambda>name. if name \<in> get_error_code_name ` set (declared_codes sch)
           then Some (Generated name
                  (length (takeWhile (\<lambda>d. get_error_code_name d \<noteq> name) (declared_codes sch))))
           else None)"
    by (auto simp: build_exceptions_flat foldl_register_code fun_eq_iff)
  have mem: "get_error_code_name c \<in> get_error_code_name ` set (declared_codes sch)"
    using assms by simp
  have l1: "build_exceptions sch (get_error_code_name c)
           = Some (Generated (get_error_code_name c)
               (length (takeWhile (\<lambda>d. get_error_code_name d \<noteq> get_error_code_name c)
                  (declared_codes sch))))"
    by (subst b) (simp only: mem if_True)
  have l3: "dom (build_exceptions sch) = get_error_code_name ` set (declared_codes sch)"
    by (subst b) (auto simp: dom_def split: if_splits)
  have l4: "fst (register_code (register_code (build_exceptions sch, n) c) c)
           = build_exceptions sch"
    by (simp add: register_code_def Let_def lookup_error_def l1)
  show ?thesis
    using l1 l3 l4 by (simp add: lookup_error_def get_error_code_name_idem)
qed


theorem build_exceptions_registers_witness:
  "''UnknownComputer'' \<in> set (declared_codes sample_schema)
   \<and> lookup_error (build_exceptions sample_schema) (get_error_code_name ''UnknownComputer'')
       = Some (Generated ''UnknownComputerError'' 0)
   \<and> lookup_error (build_exceptions sample_schema)
         (get_error_code_name ''UnknownComputerError'')
       = Some (Generated ''UnknownComputerError'' 0)"
proof -
  have codes: "declared_codes sample_schema
      = [''UnknownComputer'', ''InvalidQuery'', ''InvalidQueryError'', ''UnknownComputerError'']"
    by (simp add: declared_codes_def sample_schema_def)
  have h: "''UnknownComputer'' \<in> set (declared_codes sample_schema)"
    by (simp add: codes)
  have n1: "get_error_code_name ''UnknownComputer'' = ''UnknownComputerError''"
    by (simp add: get_error_code_name_def endswith_def)
  have n2: "get_error_code_name ''UnknownComputerError'' = ''UnknownComputerError''"
    by (simp add: get_error_code_name_def endswith_def)
  from build_exceptions_registers[OF h, of 0] h show ?thesis
    unfolding n1 n2 codes by (simp add: n1)
qed

subsection \<open>Encoding the declared fields\<close>

lemma map_of_dict_pop: "map_of (dict_pop d k) = (map_of d)(k := None)"
  by (simp add: dict_pop_def delete_conv')

lemma dict_pop_filter: "dict_pop d k = filter (\<lambda>kv. fst kv \<noteq> k) d"
  by (induction d) (auto simp: dict_pop_def)

lemma encode_fields_missing_required:
  "(n, p) \<in> set flds \<Longrightarrow> \<not> p_optional p \<Longrightarrow> map_of arguments n = None \<Longrightarrow>
   \<exists>e. encode_fields lib fs flds arguments prefix res = Inl e"
proof (induction flds arbitrary: arguments res)
  case Nil
  then show ?case by simp
next
  case (Cons f flds)
  obtain m q where f: "f = (m, q)" by (cases f)
  show ?case
  proof (cases "map_of arguments m")
    case None
    show ?thesis
    proof (cases "p_optional q")
      case True
      with Cons.prems f have "(n, p) \<in> set flds" by auto
      from Cons.IH[OF this Cons.prems(2,3)] None True f show ?thesis by simp
    next
      case False
      with None f show ?thesis by simp
    qed
  next
    case (Some v)
    with Cons.prems f have mem: "(n, p) \<in> set flds" by auto
    have gone: "map_of (dict_pop arguments m) n = None"
      using Cons.prems(3) by (simp add: map_of_dict_pop)
    show ?thesis
    proof (cases "encode_argument lib fs q (prefix @ m) v")
      case (Inl e)
      with Some f show ?thesis by simp
    next
      case (Inr item)
      from Cons.IH[OF mem Cons.prems(2) gone] Some Inr f show ?thesis by simp
    qed
  qed
qed

lemma encode_fields_rest:
  "encode_fields lib fs flds arguments prefix res = Inr (rest, out) \<Longrightarrow>
   rest = filter (\<lambda>kv. fst kv \<notin> fst ` set flds) arguments"
proof (induction flds arbitrary: arguments res)
  case Nil
  then show ?case by simp
next
  case (Cons f flds)
  obtain m q where f: "f = (m, q)" by (cases f)
  show ?case
  proof (cases "map_of arguments m")
    case None
    then have nokey: "\<forall>kv \<in> set arguments. fst kv \<noteq> m"
      by (metis domIff dom_map_of_conv_image_fst image_eqI)
    from Cons.prems None f
    have "encode_fields lib fs flds arguments prefix res = Inr (rest, out)"
      by (simp split: if_splits)
    from Cons.IH[OF this] have "rest = filter (\<lambda>kv. fst kv \<notin> fst ` set flds) arguments" .
    also have "\<dots> = filter (\<lambda>kv. fst kv \<notin> fst ` set (f # flds)) arguments"
      using nokey f by (intro filter_cong) auto
    finally show ?thesis .
  next
    case (Some v)
    from Cons.prems Some f obtain item where
      "encode_fields lib fs flds (dict_pop arguments m) prefix (dict_update res item)
         = Inr (rest, out)"
      by (auto split: sum.splits)
    from Cons.IH[OF this]
    have "rest = filter (\<lambda>kv. fst kv \<notin> fst ` set flds) (dict_pop arguments m)" .
    then show ?thesis
      using f by (simp add: dict_pop_filter conj_commute)
  qed
qed

lemma encode_fields_append:
  "encode_fields lib fs (pre @ post) arguments prefix res =
     (case encode_fields lib fs pre arguments prefix res of
        Inl e \<Rightarrow> Inl e
      | Inr (args', res') \<Rightarrow> encode_fields lib fs post args' prefix res')"
proof (induction pre arbitrary: arguments res)
  case Nil
  then show ?case by simp
next
  case (Cons f pre)
  obtain m q where f: "f = (m, q)" by (cases f)
  show ?case
    by (simp add: f Cons.IH split: option.splits sum.splits)
qed

lemmas eval_dict = dict_pop_def dict_update_def dict_set_def

text \<open>
  C2, as the code has it. Encoding declared fields against supplied arguments never
  returns a result when a required declared parameter is absent from the arguments; the
  error is \<open>MissingParameter\<close> for that parameter when the fields declared before it
  were all processed without error. When all declared fields were processed without
  error and an argument is left whose name is not declared, the error is
  \<open>ExtraArguments\<close> with the arguments left over. An optional parameter that is absent
  is skipped: the loop goes on with nothing emitted and nothing taken.
\<close>

theorem encode_struct_fields_errors:
  "((n, p) \<in> set flds \<and> \<not> p_optional p \<and> map_of arguments n = None
      \<longrightarrow> (\<exists>e. encode_struct_fields lib fs flds arguments prefix = Inl e))
   \<and> (encode_fields lib fs pre arguments prefix [] = Inr (args', res')
        \<and> \<not> p_optional p \<and> map_of arguments n = None
      \<longrightarrow> encode_struct_fields lib fs (pre @ (n, p) # post) arguments prefix
            = Inl (MissingParameter n))
   \<and> (encode_fields lib fs flds arguments prefix [] = Inr (rest, out)
        \<and> (k, v) \<in> set arguments \<and> k \<notin> fst ` set flds
      \<longrightarrow> encode_struct_fields lib fs flds arguments prefix
            = Inl (ExtraArguments (VDict (filter (\<lambda>kv. fst kv \<notin> fst ` set flds) arguments))))
   \<and> (p_optional p \<and> map_of arguments n = None
      \<longrightarrow> encode_fields lib fs ((n, p) # flds) arguments prefix res
            = encode_fields lib fs flds arguments prefix res)"
proof (intro conjI impI)
  assume "(n, p) \<in> set flds \<and> \<not> p_optional p \<and> map_of arguments n = None"
  then obtain e where "encode_fields lib fs flds arguments prefix [] = Inl e"
    using encode_fields_missing_required by blast
  then show "\<exists>e. encode_struct_fields lib fs flds arguments prefix = Inl e"
    by simp
next
  assume a: "encode_fields lib fs pre arguments prefix [] = Inr (args', res')
             \<and> \<not> p_optional p \<and> map_of arguments n = None"
  then have "args' = filter (\<lambda>kv. fst kv \<notin> fst ` set pre) arguments"
    using encode_fields_rest by blast
  moreover have "n \<notin> fst ` set arguments"
    using a by (simp add: map_of_eq_None_iff)
  ultimately have "n \<notin> fst ` set args'" by auto
  then have "map_of args' n = None" by (simp add: map_of_eq_None_iff)
  with a show "encode_struct_fields lib fs (pre @ (n, p) # post) arguments prefix
                 = Inl (MissingParameter n)"
    by (simp add: encode_fields_append)
next
  assume a: "encode_fields lib fs flds arguments prefix [] = Inr (rest, out)
             \<and> (k, v) \<in> set arguments \<and> k \<notin> fst ` set flds"
  then have r: "rest = filter (\<lambda>kv. fst kv \<notin> fst ` set flds) arguments"
    using encode_fields_rest by blast
  with a have "(k, v) \<in> set rest" by simp
  then have "rest \<noteq> []" by auto
  with a r show "encode_struct_fields lib fs flds arguments prefix
      = Inl (ExtraArguments (VDict (filter (\<lambda>kv. fst kv \<notin> fst ` set flds) arguments)))"
    by simp
next
  assume "p_optional p \<and> map_of arguments n = None"
  then show "encode_fields lib fs ((n, p) # flds) arguments prefix res
               = encode_fields lib fs flds arguments prefix res"
    by simp
qed

theorem encode_struct_fields_errors_witness:
  "encode_struct_fields sample_library Map.empty
     [(''query'', Param ''query'' TRawString False VNone),
      (''limit'', Param ''limit'' TInteger True VNone)] [] []
   = Inl (MissingParameter ''query'')
   \<and> encode_struct_fields sample_library Map.empty
     [(''query'', Param ''query'' TRawString False VNone),
      (''limit'', Param ''limit'' TInteger True VNone)]
     [(''query'', VStr ''x''), (''bogus'', VInt 1)] []
   = Inl (ExtraArguments (VDict [(''bogus'', VInt 1)]))
   \<and> encode_fields sample_library Map.empty
     [(''limit'', Param ''limit'' TInteger True VNone)] [(''bogus'', VInt 1)] []
     [(''query'', VStr ''x'')]
   = Inr ([(''bogus'', VInt 1)], [(''query'', VStr ''x'')])"
proof -
  let ?Q = "Param ''query'' TRawString False VNone"
  let ?L = "Param ''limit'' TInteger True VNone"
  note T = encode_struct_fields_errors[where lib = sample_library and fs = Map.empty
      and prefix = "[]"]
  have b: "encode_struct_fields sample_library Map.empty
             ([] @ (''query'', ?Q) # [(''limit'', ?L)]) [] [] = Inl (MissingParameter ''query'')"
    by (rule T[where pre = "[]" and args' = "[]" and res' = "[]", THEN conjunct2,
          THEN conjunct1, THEN mp]) simp
  have c: "encode_struct_fields sample_library Map.empty
             [(''query'', ?Q), (''limit'', ?L)] [(''query'', VStr ''x''), (''bogus'', VInt 1)] []
           = Inl (ExtraArguments (VDict (filter (\<lambda>kv. fst kv \<notin> fst ` set [(''query'', ?Q), (''limit'', ?L)])
                   [(''query'', VStr ''x''), (''bogus'', VInt 1)])))"
    by (rule T[where rest = "[(''bogus'', VInt 1)]" and out = "[(''query'', VStr ''x'')]"
          and k = "''bogus''" and v = "VInt 1",
          THEN conjunct2, THEN conjunct2, THEN conjunct1, THEN mp])
       (simp add: eval_dict encode_raw_string_def)
  have d: "encode_fields sample_library Map.empty ((''limit'', ?L) # []) [(''bogus'', VInt 1)] []
             [(''query'', VStr ''x'')]
           = encode_fields sample_library Map.empty [] [(''bogus'', VInt 1)] []
             [(''query'', VStr ''x'')]"
    by (rule T[THEN conjunct2, THEN conjunct2, THEN conjunct2, THEN mp]) simp
  from b c d show ?thesis by simp
qed

text \<open>
  C2, as the specification states it, fails: a required parameter is absent, and the
  error is not \<open>MissingParameter\<close> but the one raised by a field declared before it, a
  structure given an undeclared member or a file that does not exist.
\<close>

theorem missing_parameter_counterexample:
  "encode_struct_fields sample_library Map.empty
     [(''options'', Param ''options'' (TStructure []) False VNone),
      (''name'', Param ''name'' TRawString False VNone)]
     [(''options'', VDict [(''x'', VStr ''1'')])] []
   = Inl (ExtraArguments (VDict [(''x'', VStr ''1'')]))
   \<and> encode_struct_fields sample_library Map.empty
     [(''key'', Param ''key'' TFile False VNone),
      (''name'', Param ''name'' TRawString False VNone)]
     [(''key'', VStr ''/nonexistent'')] []
   = Inl (FileNotFoundError ''/nonexistent'')"
  by (simp add: eval_dict)

text \<open>
  C3. An optional parameter whose value equals its declared default, by Python's
  \<^verbatim>\<open>==\<close>, is encoded as nothing. This holds for a default that counts as false: a
  boolean optional parameter with default \<^verbatim>\<open>False\<close> is left out when \<^verbatim>\<open>False\<close> is
  passed, and is present with the value \<^verbatim>\<open>true\<close> when \<^verbatim>\<open>True\<close> is passed.
\<close>

theorem encode_argument_default_omitted:
  assumes "p_optional p" and "py_eq v (p_default p)"
  shows "encode_argument lib fs p name v = Inr []
     \<and> encode_argument lib fs (Param n TBoolean True (VBool False)) name (VBool False) = Inr []
     \<and> encode_argument lib fs (Param n TBoolean True (VBool False)) name (VBool True)
         = Inr [(name, VStr ''true'')]
     \<and> encode_struct_fields lib fs [(n, Param n TBoolean True (VBool False))]
           [(n, VBool False)] [] = Inr []
     \<and> encode_struct_fields lib fs [(n, Param n TBoolean True (VBool False))]
           [(n, VBool True)] [] = Inr [(n, VStr ''true'')]"
proof -
  have "encode_argument lib fs p name v = Inr []"
    using assms by (cases p) simp
  then show ?thesis
    by (simp add: encode_boolean_def dict_pop_def dict_update_def dict_set_def)
qed

theorem encode_argument_default_omitted_witness:
  "p_optional (Param ''with_network'' TBoolean True (VBool False))
   \<and> py_eq (VBool False) (p_default (Param ''with_network'' TBoolean True (VBool False)))
   \<and> encode_argument sample_library Map.empty
        (Param ''with_network'' TBoolean True (VBool False)) ''with_network'' (VBool False)
       = Inr []"
proof -
  have h1: "p_optional (Param ''with_network'' TBoolean True (VBool False))" by simp
  have h2: "py_eq (VBool False) (p_default (Param ''with_network'' TBoolean True (VBool False)))"
    by simp
  note t = encode_argument_default_omitted[OF h1 h2, where lib = sample_library
      and fs = Map.empty and name = "''with_network''" and n = "''with_network''"]
  show ?thesis by (rule conjI[OF h1 conjI[OF h2 t[THEN conjunct1]]])
qed

text \<open>
  C5 does not hold of \<^verbatim>\<open>_encode_list\<close>: text given for a list parameter is split at
  every comma, escaped or not, so that the text \<^verbatim>\<open>a,b\,c\<close> gives three items, the second
  ending in the backslash. \<^verbatim>\<open>_parse_csv_list_safely\<close>, which \<^verbatim>\<open>_encode_mapping\<close> and the
  command line use, gives the two items \<^verbatim>\<open>a\<close> and \<^verbatim>\<open>b,c\<close>.
\<close>

theorem encode_list_splits_at_every_comma:
  "encode_argument lib fs
     (Param ''tags'' (TList (Param ''item'' TRawString False VNone)) False VNone)
     ''tags'' (VStr (''a,b'' @ [CHR 0x5C] @ '',c''))
   = Inr [(''tags.1'', VStr ''a''), (''tags.2'', VStr (''b'' @ [CHR 0x5C])),
          (''tags.3'', VStr ''c'')]
   \<and> parse_csv_list_safely (''a,b'' @ [CHR 0x5C] @ '',c'') = [''a'', ''b,c'']"
  by (simp add: eval_dict encode_raw_string_def strip_def is_space_def hexdigit_def
      parse_csv_list_safely_def)

text \<open>
  C7 does not hold of \<^verbatim>\<open>_encode_unicode\<close>: a \<^verbatim>\<open>date\<close> or \<^verbatim>\<open>datetime\<close> goes to the date
  encoding, but text, which \<^verbatim>\<open>str(value, "utf-8")\<close> refuses, raises a \<^verbatim>\<open>TypeError\<close>.
\<close>

theorem encode_unicode_text_raises:
  "encode_argument lib fs (Param n TUnicode False dflt) name (VStr s) = Inl TypeError
   \<and> encode_argument lib fs (Param n TUnicodeLine False dflt) name (VStr s) = Inl TypeError
   \<and> encode_argument lib fs (Param n TUnicodeTitle False dflt) name (VStr s) = Inl TypeError
   \<and> encode_argument lib fs (Param n TUnicode False dflt) name (VDate y m d)
       = encode_date name (VDate y m d)
   \<and> encode_argument lib fs (Param n TUnicode False dflt) name (VDateTime y m d h mi sec)
       = encode_date name (VDateTime y m d h mi sec)"
  by simp

end
